theory Spec2Isabelle
  imports Complex_Main
begin

section \<open>Reader preferences: font size (hooks/useReaderPreferences)\<close>

text \<open>
  The hook keeps \<open>fontSize\<close> (a TypeScript \<open>number\<close>), \<open>theme\<close> and \<open>isLoaded\<close>.
  A \<open>number\<close> read back from localStorage can be any number, so the font size is a
  real here; the rounding of double arithmetic is left out.
\<close>

datatype Theme = light | dark

record ReaderPreferences =
  fontSize :: real
  theme :: Theme
  isLoaded :: bool

definition DEFAULT_PREFERENCES :: ReaderPreferences where
  "DEFAULT_PREFERENCES = \<lparr>fontSize = 18, theme = dark, isLoaded = False\<rparr>"

definition MIN_FONT_SIZE :: real where
  "MIN_FONT_SIZE = 14"

definition MAX_FONT_SIZE :: real where
  "MAX_FONT_SIZE = 28"

definition FONT_SIZE_STEP :: real where
  "FONT_SIZE_STEP = 2"

text \<open>
  What \<open>JSON.parse(stored) as Partial<ReaderPreferences>\<close> yields: each field may be
  missing. The theme is kept as the string that was stored.
\<close>

record StoredPreferences =
  stored_fontSize :: "real option"
  stored_theme :: "string option"

text \<open>
  The effect that runs on mount. \<open>None\<close> stands for no stored item, and for a
  \<open>getItem\<close> or \<open>JSON.parse\<close> that throws (the \<open>catch\<close> only logs a warning).
  \<open>prefs.fontSize && ...\<close> is false for a missing field and for the number 0.
\<close>

definition loadPreferences :: "StoredPreferences option \<Rightarrow> ReaderPreferences \<Rightarrow> ReaderPreferences" where
  "loadPreferences stored s =
     (let s1 = (case stored of
                  None \<Rightarrow> s
                | Some prefs \<Rightarrow>
                    (let s2 = (case stored_fontSize prefs of
                                 None \<Rightarrow> s
                               | Some f \<Rightarrow>
                                   if f \<noteq> 0 \<and> f \<ge> MIN_FONT_SIZE \<and> f \<le> MAX_FONT_SIZE
                                   then s\<lparr>fontSize := f\<rparr> else s)
                     in (case stored_theme prefs of
                           None \<Rightarrow> s2
                         | Some t \<Rightarrow>
                             if t = ''light'' then s2\<lparr>theme := light\<rparr>
                             else if t = ''dark'' then s2\<lparr>theme := dark\<rparr>
                             else s2)))
      in s1\<lparr>isLoaded := True\<rparr>)"

definition increaseFontSize :: "ReaderPreferences \<Rightarrow> ReaderPreferences" where
  "increaseFontSize s = s\<lparr>fontSize := min MAX_FONT_SIZE (fontSize s + FONT_SIZE_STEP)\<rparr>"

definition decreaseFontSize :: "ReaderPreferences \<Rightarrow> ReaderPreferences" where
  "decreaseFontSize s = s\<lparr>fontSize := max MIN_FONT_SIZE (fontSize s - FONT_SIZE_STEP)\<rparr>"

definition toggleTheme :: "ReaderPreferences \<Rightarrow> ReaderPreferences" where
  "toggleTheme s = s\<lparr>theme := (if theme s = dark then light else dark)\<rparr>"

definition canIncrease :: "ReaderPreferences \<Rightarrow> bool" where
  "canIncrease s = (fontSize s < MAX_FONT_SIZE)"

definition canDecrease :: "ReaderPreferences \<Rightarrow> bool" where
  "canDecrease s = (fontSize s > MIN_FONT_SIZE)"

text \<open>The calls a component can make on the hook, and a sequence of them.\<close>

datatype PreferenceCall =
    IncreaseFontSize
  | DecreaseFontSize
  | ToggleTheme
  | LoadPreferences "StoredPreferences option"

fun preferenceCall :: "PreferenceCall \<Rightarrow> ReaderPreferences \<Rightarrow> ReaderPreferences" where
  "preferenceCall IncreaseFontSize s = increaseFontSize s"
| "preferenceCall DecreaseFontSize s = decreaseFontSize s"
| "preferenceCall ToggleTheme s = toggleTheme s"
| "preferenceCall (LoadPreferences stored) s = loadPreferences stored s"

fun preferenceCalls :: "PreferenceCall list \<Rightarrow> ReaderPreferences \<Rightarrow> ReaderPreferences" where
  "preferenceCalls [] s = s"
| "preferenceCalls (c # cs) s = preferenceCalls cs (preferenceCall c s)"


section \<open>Page navigation (app/page.tsx, components/ReaderView.tsx)\<close>

record PageText =
  page_number :: int
  page_text :: string









section \<open>API client (lib/api.ts)\<close>

text \<open>
  A \<open>throw\<close> is a value of the model: either an \<open>Error\<close> object with its message, or
  some other thrown value (the callers test \<open>err instanceof Error\<close>).
\<close>

datatype Thrown = Error string | NotAnError

definition errorMessage :: "Thrown \<Rightarrow> string \<Rightarrow> string" where
  "errorMessage err fallback = (case err of Error m \<Rightarrow> m | NotAnError \<Rightarrow> fallback)"

text \<open>
  The server is not part of the client: how a \<open>fetch\<close> ends is a parameter of every
  function that sends a request. \<open>ResponseOk v\<close>: \<open>response.ok\<close>, with body \<open>v\<close>.
  \<open>ResponseNotOk detail\<close>: a response that is not ok, whose JSON body has the given
  \<open>detail\<close> (the empty string when it is missing or empty, which is what
  \<open>error.detail || ...\<close> tests). \<open>FetchThrows t\<close>: \<open>fetch\<close> or \<open>response.json()\<close> rejects.
\<close>

datatype 'a Fetched = ResponseOk 'a | ResponseNotOk string | FetchThrows Thrown

record File =
  file_name :: string
  file_type :: string
  file_size :: nat

datatype Language = english | telugu

record UploadResponse =
  session_id :: string
  page_count :: int
  message :: string

record PagesResponse =
  pages_session_id :: string
  response_pages :: "PageText list"

record Character =
  name :: string
  role :: string
  relationships :: "string list"
  first_appearance_page :: int

record CharactersResponse =
  response_characters :: "Character list"
  response_language :: Language

type_synonym Blob = string

text \<open>The requests the modelled components send.\<close>

datatype Request =
    UploadImagesRequest "File list"
  | GetPagesRequest string
  | GetCharactersRequest string Language
  | GetTTSAudioRequest string int
  | DeleteSessionRequest string

text \<open>
  Every function of api.ts ends alike:
  \<^verbatim>\<open>if (!response.ok) { const error = await response.json();
                       throw new Error(error.detail || '<fallback>'); }
 return response.json();\<close>
\<close>

definition responseOrThrow :: "string \<Rightarrow> 'a Fetched \<Rightarrow> Thrown + 'a" where
  "responseOrThrow fallback fetched =
     (case fetched of
        ResponseOk v \<Rightarrow> Inr v
      | ResponseNotOk detail \<Rightarrow> Inl (Error (if detail \<noteq> [] then detail else fallback))
      | FetchThrows t \<Rightarrow> Inl t)"

text \<open>Each function gives the request it sends and what it returns or throws.\<close>

definition uploadImages ::
  "File list \<Rightarrow> UploadResponse Fetched \<Rightarrow> Request \<times> (Thrown + UploadResponse)" where
  "uploadImages files fetched =
     (UploadImagesRequest files, responseOrThrow ''Upload failed'' fetched)"

definition getPages ::
  "string \<Rightarrow> PagesResponse Fetched \<Rightarrow> Request \<times> (Thrown + PagesResponse)" where
  "getPages sid fetched =
     (GetPagesRequest sid, responseOrThrow ''Failed to get pages'' fetched)"

definition getCharacters ::
  "string \<Rightarrow> Language \<Rightarrow> CharactersResponse Fetched \<Rightarrow> Request \<times> (Thrown + CharactersResponse)" where
  "getCharacters sid lang fetched =
     (GetCharactersRequest sid lang, responseOrThrow ''Character extraction failed'' fetched)"

definition getTTSAudio ::
  "string \<Rightarrow> int \<Rightarrow> Blob Fetched \<Rightarrow> Request \<times> (Thrown + Blob)" where
  "getTTSAudio sid pageNumber fetched =
     (GetTTSAudioRequest sid pageNumber, responseOrThrow ''TTS generation failed'' fetched)"

text \<open>\<open>deleteSession\<close> returns nothing when the response is ok.\<close>

definition deleteSession ::
  "string \<Rightarrow> unit Fetched \<Rightarrow> Request \<times> (Thrown + unit)" where
  "deleteSession sid fetched =
     (DeleteSessionRequest sid, responseOrThrow ''Failed to delete session'' fetched)"

text \<open>JavaScript's truth of a \<open>string | null\<close>: null and the empty string are false.\<close>

definition truthy :: "string option \<Rightarrow> bool" where
  "truthy v = (case v of None \<Rightarrow> False | Some x \<Rightarrow> x \<noteq> [])"


section \<open>Session state (hooks/useSession.ts)\<close>

record Session =
  sessionId :: "string option"
  pages :: "PageText list"
  isLoading :: bool
  error :: "string option"

definition initialSession :: Session where
  "initialSession = \<lparr>sessionId = None, pages = [], isLoading = False, error = None\<rparr>"

text \<open>
  An async function of the hook is modelled by its whole run: it takes the state and
  how each of its requests ends, and gives what it returns or throws, the state after
  its last \<open>set...\<close> call, and the requests it sent, in order.

  \<open>upload\<close>: \<open>setSessionId\<close> runs as soon as \<open>uploadImages\<close> returns, before \<open>getPages\<close>
  is awaited; the \<open>catch\<close> sets the error and rethrows; \<open>finally\<close> clears \<open>isLoading\<close>.
\<close>

definition upload ::
  "File list \<Rightarrow> UploadResponse Fetched \<Rightarrow> PagesResponse Fetched \<Rightarrow> Session
     \<Rightarrow> (Thrown + UploadResponse) \<times> Session \<times> Request list" where
  "upload files uploaded fetched s =
     (let s1 = s\<lparr>isLoading := True, error := None\<rparr>;
          (req1, r1) = uploadImages files uploaded
      in case r1 of
           Inl err \<Rightarrow>
             (Inl err,
              s1\<lparr>error := Some (errorMessage err ''Upload failed''), isLoading := False\<rparr>,
              [req1])
         | Inr response \<Rightarrow>
             (let s2 = s1\<lparr>sessionId := Some (session_id response)\<rparr>;
                  (req2, r2) = getPages (session_id response) fetched
              in case r2 of
                   Inl err \<Rightarrow>
                     (Inl err,
                      s2\<lparr>error := Some (errorMessage err ''Upload failed''), isLoading := False\<rparr>,
                      [req1, req2])
                 | Inr pagesResponse \<Rightarrow>
                     (Inr response,
                      s2\<lparr>pages := response_pages pagesResponse, isLoading := False\<rparr>,
                      [req1, req2])))"

text \<open>
  \<open>clearSession\<close>: the request is sent only for a truthy \<open>sessionId\<close>; whatever
  \<open>deleteSession\<close> throws is caught and dropped ("Ignore errors on cleanup").
\<close>

definition clearSession ::
  "unit Fetched \<Rightarrow> Session \<Rightarrow> (Thrown + unit) \<times> Session \<times> Request list" where
  "clearSession fetched s =
     (let sent = (case sessionId s of
                    None \<Rightarrow> []
                  | Some sid \<Rightarrow>
                      if sid = [] then []
                      else (let (req, r) = deleteSession sid fetched
                            in case r of Inl err \<Rightarrow> [req] | Inr u \<Rightarrow> [req]))
      in (Inr (), s\<lparr>sessionId := None, pages := [], error := None\<rparr>, sent))"


section \<open>Main page (app/page.tsx)\<close>

record Home =
  session :: Session
  currentPage :: int

definition initialHome :: Home where
  "initialHome = \<lparr>session = initialSession, currentPage = 1\<rparr>"

text \<open>\<open>handleUpload\<close> of the page: \<open>await upload(files); setCurrentPage(1)\<close>.\<close>

definition Home_handleUpload ::
  "File list \<Rightarrow> UploadResponse Fetched \<Rightarrow> PagesResponse Fetched \<Rightarrow> Home
     \<Rightarrow> (Thrown + unit) \<times> Home \<times> Request list" where
  "Home_handleUpload files uploaded fetched h =
     (let (r, s', sent) = upload files uploaded fetched (session h)
      in case r of
           Inl err \<Rightarrow> (Inl err, h\<lparr>session := s'\<rparr>, sent)
         | Inr response \<Rightarrow> (Inr (), h\<lparr>session := s', currentPage := 1\<rparr>, sent))"

text \<open>\<open>handleNewSession\<close>: \<open>await clearSession(); setCurrentPage(1)\<close>.\<close>

definition handleNewSession ::
  "unit Fetched \<Rightarrow> Home \<Rightarrow> (Thrown + unit) \<times> Home \<times> Request list" where
  "handleNewSession fetched h =
     (let (r, s', sent) = clearSession fetched (session h)
      in case r of
           Inl err \<Rightarrow> (Inl err, h\<lparr>session := s'\<rparr>, sent)
         | Inr u \<Rightarrow> (Inr (), h\<lparr>session := s', currentPage := 1\<rparr>, sent))"

text \<open>
  What the page renders: the upload section (with the hook's error message inside it)
  under \<open>!sessionId\<close>, the reader section under \<open>sessionId && pages.length > 0\<close>.
\<close>

definition uploadSectionShown :: "Home \<Rightarrow> bool" where
  "uploadSectionShown h = (\<not> truthy (sessionId (session h)))"

definition readerSectionShown :: "Home \<Rightarrow> bool" where
  "readerSectionShown h = (truthy (sessionId (session h)) \<and> length (pages (session h)) > 0)"


section \<open>Image uploader (components/ImageUploader.tsx)\<close>

record ImageUploader =
  selectedFiles :: "File list"
  previews :: "string list"
  isUploading :: bool
  uploader_error :: "string option"
  showCamera :: bool

definition initialImageUploader :: ImageUploader where
  "initialImageUploader =
     \<lparr>selectedFiles = [], previews = [], isUploading = False, uploader_error = None,
      showCamera = False\<rparr>"

definition allowedTypes :: "string list" where
  "allowedTypes = [''image/jpeg'', ''image/png'', ''image/webp'', ''image/gif'']"

text \<open>The decimal digits of a number, as a template literal prints \<open>${maxFiles}\<close>.\<close>

fun decimal :: "nat \<Rightarrow> string" where
  "decimal n =
     (if n < 10 then [char_of (48 + n)]
      else decimal (n div 10) @ [char_of (48 + n mod 10)])"

text \<open>
  \<open>handleFileSelect\<close>: \<open>files\<close> is the input's \<open>FileList | null\<close>; \<open>preview\<close> is the
  URL that \<open>URL.createObjectURL(file)\<close> returns. Only the first file of the list is
  looked at. \<open>selectedLength\<close> is \<open>selectedFiles.length\<close> of the render the callback
  belongs to (the room test reads it); the two appends are functional updates and act
  on the state \<open>s\<close> at the time they run. The object URLs made and revoked by this
  component live in the browser and are not part of the state.
\<close>

definition handleFileSelect ::
  "File list option \<Rightarrow> nat \<Rightarrow> string \<Rightarrow> nat \<Rightarrow> ImageUploader \<Rightarrow> ImageUploader" where
  "handleFileSelect files maxFiles preview selectedLength s =
     (case files of
        None \<Rightarrow> s
      | Some [] \<Rightarrow> s
      | Some (file # others) \<Rightarrow>
          (let s1 = s\<lparr>uploader_error := None\<rparr>
           in if file_type file \<notin> set allowedTypes
              then s1\<lparr>uploader_error := Some (file_name file
                          @ '' is not a valid image type. Use JPG, PNG, WebP, or GIF.'')\<rparr>
              else if file_size file > 10 * 1024 * 1024
              then s1\<lparr>uploader_error := Some (file_name file
                          @ '' is too large. Maximum size is 10MB.'')\<rparr>
              else if selectedLength \<ge> maxFiles
              then s1\<lparr>uploader_error := Some (''Maximum '' @ decimal maxFiles
                          @ '' images allowed.'')\<rparr>
              else s1\<lparr>selectedFiles := selectedFiles s1 @ [file],
                      previews := previews s1 @ [preview]\<rparr>))"

text \<open>
  \<open>handleCameraCapture\<close> appends the photo it is given; it tests nothing.
\<close>

definition handleCameraCapture :: "File \<Rightarrow> string \<Rightarrow> ImageUploader \<Rightarrow> ImageUploader" where
  "handleCameraCapture file preview s =
     s\<lparr>selectedFiles := selectedFiles s @ [file], previews := previews s @ [preview],
       showCamera := False\<rparr>"

definition clearAll :: "ImageUploader \<Rightarrow> ImageUploader" where
  "clearAll s = s\<lparr>selectedFiles := [], previews := [], uploader_error := None\<rparr>"

text \<open>
  \<open>handleUpload\<close> of the uploader. \<open>onUpload\<close> is the prop: a function of the files that
  acts on the rest of the application (the state \<open>w\<close>) and returns or throws.
  \<open>selected\<close> is \<open>selectedFiles\<close> of the render the handler belongs to: it is what the
  handler tests and what it passes on, whatever files they are and however they were
  selected.
\<close>

definition ImageUploader_handleUpload ::
  "(File list \<Rightarrow> 'w \<Rightarrow> (Thrown + unit) \<times> 'w) \<Rightarrow> File list \<Rightarrow> ImageUploader \<times> 'w
     \<Rightarrow> ImageUploader \<times> 'w" where
  "ImageUploader_handleUpload onUpload selected sw =
     (let (s, w) = sw
      in if length selected = 0 then (s, w)
         else (let s1 = s\<lparr>isUploading := True, uploader_error := None\<rparr>;
                   (r, w') = onUpload selected w
               in case r of
                    Inr u \<Rightarrow> ((clearAll s1)\<lparr>isUploading := False\<rparr>, w')
                  | Inl err \<Rightarrow>
                      (s1\<lparr>uploader_error := Some (errorMessage err ''Upload failed''),
                          isUploading := False\<rparr>, w')))"

text \<open>
  The prop as \<open>Home\<close> passes it (\<open>onUpload={handleUpload}\<close>), acting on the page's state
  and the list of requests sent so far.
\<close>

definition Home_onUpload ::
  "UploadResponse Fetched \<Rightarrow> PagesResponse Fetched \<Rightarrow> File list \<Rightarrow> Home \<times> Request list
     \<Rightarrow> (Thrown + unit) \<times> Home \<times> Request list" where
  "Home_onUpload uploaded fetched files hw =
     (let (h, sent) = hw;
          (r, h', sent') = Home_handleUpload files uploaded fetched h
      in (r, h', sent @ sent'))"


section \<open>Audio player (components/AudioPlayer.tsx)\<close>

record AudioPlayer =
  audio_isLoading :: bool
  isPlaying :: bool
  audioUrl :: "string option"
  audio_error :: "string option"
  progress :: real
  duration :: real
  loadedPageRef :: "int option"

definition initialAudioPlayer :: AudioPlayer where
  "initialAudioPlayer =
     \<lparr>audio_isLoading = False, isPlaying = False, audioUrl = None, audio_error = None,
      progress = 0, duration = 0, loadedPageRef = None\<rparr>"

text \<open>What \<open>loadAudio\<close> does outside the component's state, in order.\<close>

datatype Effect =
    Fetch Request
  | CreateObjectURL string
  | RevokeObjectURL string
  | PauseAudio

text \<open>
  \<open>loadAudio\<close>, as one run. \<open>fetched\<close> is how the TTS request ends, \<open>url\<close> the URL that
  \<open>URL.createObjectURL(blob)\<close> returns. \<open>audioRef.current\<close> is the audio element, which
  is rendered exactly when \<open>audioUrl\<close> is truthy.
\<close>

definition loadAudio ::
  "string \<Rightarrow> int \<Rightarrow> Blob Fetched \<Rightarrow> string \<Rightarrow> AudioPlayer \<Rightarrow> AudioPlayer \<times> Effect list" where
  "loadAudio sid page fetched url s =
     (if loadedPageRef s = Some page \<and> truthy (audioUrl s) then (s, [])
      else
        (let s1 = s\<lparr>audio_isLoading := True, audio_error := None\<rparr>;
             cleanup = (case audioUrl s of
                          None \<Rightarrow> []
                        | Some old \<Rightarrow> if old \<noteq> [] then [RevokeObjectURL old, PauseAudio] else []);
             s2 = s1\<lparr>isPlaying := False, progress := 0\<rparr>;
             (req, r) = getTTSAudio sid page fetched
         in case r of
              Inr blob \<Rightarrow>
                (s2\<lparr>audioUrl := Some url, loadedPageRef := Some page, audio_isLoading := False\<rparr>,
                 cleanup @ [Fetch req, CreateObjectURL url])
            | Inl err \<Rightarrow>
                (s2\<lparr>audio_error := Some (errorMessage err ''Failed to generate audio''),
                    audio_isLoading := False\<rparr>,
                 cleanup @ [Fetch req])))"

text \<open>The requests among a list of effects.\<close>

definition ttsRequests :: "Effect list \<Rightarrow> Request list" where
  "ttsRequests effects = concat (map (\<lambda>e. case e of Fetch q \<Rightarrow> [q] | _ \<Rightarrow> []) effects)"


section \<open>Session store and expiry (server side)\<close>

text \<open>
  The server (backend/services/session.py and the rest of backend/) is a separate
  program whose code is missing here; the client only calls it through lib/api.ts.
  The store, its logical expiry and the reaper are therefore written from sections 3,
  4.1 and 4.4 of the specification. Times are whole seconds; session ids are handed
  out in sequence, so that no id is used twice in the life of the store.
\<close>

type_synonym SessionId = nat

type_synonym Time = nat

text \<open>Modelled from the spec: the time to live, "TTL = 1 hour" (the server's constant is missing).\<close>

definition TTL :: Time where
  "TTL = 3600"

text \<open>Modelled from the spec: the cache key \<open>(pageNumber?, stageName, variant)\<close>.\<close>

record CacheKey =
  pageNumber :: "int option"
  stageName :: string
  variant :: string

text \<open>
  Modelled from the spec: the Session of section 3 (the server's session type is
  missing). \<open>pageRecords\<close> holds the raw text of pages 1..N in upload order.
\<close>

record StoredSession =
  createdAt :: Time
  expiresAt :: Time
  pageRecords :: "string list"
  stageCache :: "(CacheKey \<times> string) list"

text \<open>Modelled from the spec: the session map of the SessionStore, with the next fresh id.\<close>

record SessionStore =
  sessions :: "SessionId \<Rightarrow> StoredSession option"
  nextId :: SessionId

text \<open>Modelled from the spec: the store at process start, holding no session.\<close>

definition emptyStore :: SessionStore where
  "emptyStore = \<lparr>sessions = (\<lambda>i. None), nextId = 0\<rparr>"

text \<open>
  Modelled from the spec: \<open>create(pages) -> SessionId\<close> "allocates a fresh id, stores
  the session with expiresAt = now + TTL, returns the id".
\<close>

definition create :: "string list \<Rightarrow> Time \<Rightarrow> SessionStore \<Rightarrow> SessionId \<times> SessionStore" where
  "create ps now st =
     (nextId st,
      st\<lparr>sessions := (sessions st)(nextId st \<mapsto>
              \<lparr>createdAt = now, expiresAt = now + TTL, pageRecords = ps, stageCache = []\<rparr>),
         nextId := nextId st + 1\<rparr>)"

text \<open>
  Modelled from the spec: \<open>get(id) -> Session | NotFound\<close>, "NotFound if absent or
  expired, even if the underlying entry has not yet been physically reaped (logical
  expiry check happens on every read)". \<open>None\<close> is NotFound.
\<close>

definition get :: "SessionId \<Rightarrow> Time \<Rightarrow> SessionStore \<Rightarrow> StoredSession option" where
  "get i now st =
     (case sessions st i of
        None \<Rightarrow> None
      | Some s \<Rightarrow> if now < expiresAt s then Some s else None)"

text \<open>Modelled from the spec: the three answers of \<open>getCache\<close>, "value | Missing | NotFound".\<close>

datatype CacheRead = CacheValue string | Missing | NotFound

text \<open>Modelled from the spec: \<open>getCache(id, key) -> value | Missing | NotFound\<close>.\<close>

definition getCache :: "SessionId \<Rightarrow> CacheKey \<Rightarrow> Time \<Rightarrow> SessionStore \<Rightarrow> CacheRead" where
  "getCache i k now st =
     (case get i now st of
        None \<Rightarrow> NotFound
      | Some s \<Rightarrow> (case map_of (stageCache s) k of None \<Rightarrow> Missing | Some v \<Rightarrow> CacheValue v))"

text \<open>
  Modelled from the spec: \<open>putCache(id, key, value) -> success | NotFound\<close>, "NotFound
  if the session is gone by the time the write lands - the caller must not resurrect
  a session". \<open>False\<close> is NotFound.
\<close>

definition putCache ::
  "SessionId \<Rightarrow> CacheKey \<Rightarrow> string \<Rightarrow> Time \<Rightarrow> SessionStore \<Rightarrow> bool \<times> SessionStore" where
  "putCache i k v now st =
     (case get i now st of
        None \<Rightarrow> (False, st)
      | Some s \<Rightarrow>
          (True, st\<lparr>sessions := (sessions st)(i \<mapsto> s\<lparr>stageCache := (k, v) # stageCache s\<rparr>)\<rparr>))"

text \<open>
  Modelled from the spec: \<open>delete(id) -> void\<close>, "idempotent; deleting a non-existent
  session is not an error".
\<close>

definition delete :: "SessionId \<Rightarrow> SessionStore \<Rightarrow> SessionStore" where
  "delete i st = st\<lparr>sessions := (sessions st)(i := None)\<rparr>"

text \<open>Modelled from the spec: the reaper's test, "sessions whose expiresAt <= now".\<close>

definition expired :: "Time \<Rightarrow> SessionStore \<Rightarrow> SessionId \<Rightarrow> bool" where
  "expired now st i = (case sessions st i of None \<Rightarrow> False | Some s \<Rightarrow> expiresAt s \<le> now)"

text \<open>
  Modelled from the spec: one tick of the ExpiryReaper, "enumerate sessions whose
  expiresAt <= now; delete each via SessionStore.delete". The ids ever handed out are
  those below \<open>nextId\<close>.
\<close>

definition reaperTick :: "Time \<Rightarrow> SessionStore \<Rightarrow> SessionStore" where
  "reaperTick now st = fold delete (filter (expired now st) [0..<nextId st]) st"

text \<open>
  Modelled from the spec: the calls that change the store, each with the time at
  which it lands, and a sequence of them in the order they land.
\<close>

datatype StoreCall =
    Create "string list"
  | PutCache SessionId CacheKey string
  | Delete SessionId
  | ReaperTick

fun storeCall :: "Time \<times> StoreCall \<Rightarrow> SessionStore \<Rightarrow> SessionStore" where
  "storeCall (now, Create ps) st = snd (create ps now st)"
| "storeCall (now, PutCache i k v) st = snd (putCache i k v now st)"
| "storeCall (now, Delete i) st = delete i st"
| "storeCall (now, ReaperTick) st = reaperTick now st"

fun storeCalls :: "(Time \<times> StoreCall) list \<Rightarrow> SessionStore \<Rightarrow> SessionStore" where
  "storeCalls [] st = st"
| "storeCalls (c # cs) st = storeCalls cs (storeCall c st)"

text \<open>
  A sequence of calls that lands no later than \<open>now\<close> and never deletes session \<open>i\<close>
  explicitly.
\<close>

definition quiet :: "SessionId \<Rightarrow> Time \<Rightarrow> (Time \<times> StoreCall) list \<Rightarrow> bool" where
  "quiet i now cs = list_all (\<lambda>(t, c). t \<le> now \<and> c \<noteq> Delete i) cs"

text \<open>What is known of session \<open>i\<close> once it was created with expiry \<open>e\<close>.\<close>

definition keeps :: "SessionId \<Rightarrow> Time \<Rightarrow> SessionStore \<Rightarrow> bool" where
  "keeps i e st =
     (i < nextId st \<and> (case sessions st i of None \<Rightarrow> True | Some s \<Rightarrow> expiresAt s = e))"

definition holds :: "SessionId \<Rightarrow> Time \<Rightarrow> Time \<Rightarrow> string list \<Rightarrow> SessionStore \<Rightarrow> bool" where
  "holds i t0 e ps st =
     (i < nextId st \<and>
      (case sessions st i of
         None \<Rightarrow> False
       | Some s \<Rightarrow> createdAt s = t0 \<and> expiresAt s = e \<and> pageRecords s = ps))"


text \<open>
  Modelled from the spec: the error taxonomy of section 7 (the server's error types
  are missing).
\<close>

datatype ServerError = ValidationError | NotFoundError | UpstreamError | InternalError

text \<open>Modelled from the spec: the most files one upload may hold, "Upload with ... >15 files".\<close>

definition MAX_UPLOAD_FILES :: nat where
  "MAX_UPLOAD_FILES = 15"

text \<open>
  Modelled from the spec: the Upload operation of sections 4.3, 6 and 7 (the server's
  upload handler is missing). "Upload with 0 files, >15 files, or a disallowed MIME
  type is rejected with ValidationError and creates no session"; section 6 adds the
  size ("400 invalid type/size/over max count"); "validation is rejected at the
  boundary before any store interaction". Then OCR runs per image, and "only after
  all pages succeed is SessionStore.create called. If any page's OCR fails, the whole
  upload is rejected". The specification names neither the allowed MIME types nor
  the size limit: they are the parameters \<open>allowedMime\<close> and \<open>maxBytes\<close>. \<open>ocr\<close> is the
  OCR adapter with the optional correction, \<open>None\<close> when it fails.
\<close>

definition serverUpload ::
  "(string \<Rightarrow> bool) \<Rightarrow> nat \<Rightarrow> (File \<Rightarrow> string option) \<Rightarrow> File list \<Rightarrow> Time \<Rightarrow> SessionStore
     \<Rightarrow> (ServerError + SessionId) \<times> SessionStore" where
  "serverUpload allowedMime maxBytes ocr files now st =
     (if length files = 0 \<or> length files > MAX_UPLOAD_FILES
         \<or> list_ex (\<lambda>f. \<not> allowedMime (file_type f) \<or> file_size f > maxBytes) files
      then (Inl ValidationError, st)
      else (case those (map ocr files) of
              None \<Rightarrow> (Inl UpstreamError, st)
            | Some texts \<Rightarrow> (case create texts now st of (i, st') \<Rightarrow> (Inr i, st'))))"


section \<open>Request gate (server side)\<close>

text \<open>
  The RequestGate is server code too (missing here) and is written from section 4.2
  of the specification. Concurrency is modelled by interleaving: callers and
  completions are events, taken one at a time in any order.
\<close>

type_synonym Caller = nat

text \<open>Modelled from the spec: what \<open>run\<close> gives a caller, \<open>value | Error\<close>.\<close>

datatype 'v Outcome = Value 'v | UpstreamError string

text \<open>
  Modelled from the spec: the gate's registrations. \<open>inFlight k\<close> is the invocation
  registered for the dedup key \<open>k\<close>, with the callers attached to it; \<open>invoked\<close> lists
  the adapter invocations started, \<open>received\<close> what each caller was given.
\<close>

record ('k, 'v) RequestGate =
  inFlight :: "'k \<Rightarrow> Caller list option"
  invoked :: "'k list"
  received :: "(Caller \<times> 'k \<times> 'v Outcome) list"

text \<open>Modelled from the spec: a gate with nothing in flight.\<close>

definition idleGate :: "('k, 'v) RequestGate" where
  "idleGate = \<lparr>inFlight = (\<lambda>k. None), invoked = [], received = []\<rparr>"

text \<open>
  Modelled from the spec: what happens at the gate. \<open>Run c k\<close>: caller \<open>c\<close> calls
  \<open>run\<close> with the dedup key \<open>k\<close>. \<open>Completes k r\<close>: the invocation in flight for \<open>k\<close>
  completes with the outcome \<open>r\<close>.
\<close>

datatype ('k, 'v) GateEvent = Run Caller 'k | Completes 'k "'v Outcome"

text \<open>
  Modelled from the spec: \<open>run(key, computeFn)\<close>. "If no invocation is in flight for
  key, starts one and registers it; all other callers for the same key issued while
  it is in flight attach to the result. Once the invocation completes, registration
  for that key is cleared (success or failure)".
\<close>

fun gateEvent :: "('k, 'v) GateEvent \<Rightarrow> ('k, 'v) RequestGate \<Rightarrow> ('k, 'v) RequestGate" where
  "gateEvent (Run c k) g =
     (case inFlight g k of
        None \<Rightarrow> g\<lparr>inFlight := (inFlight g)(k \<mapsto> [c]), invoked := invoked g @ [k]\<rparr>
      | Some cs \<Rightarrow> g\<lparr>inFlight := (inFlight g)(k \<mapsto> cs @ [c])\<rparr>)"
| "gateEvent (Completes k r) g =
     (case inFlight g k of
        None \<Rightarrow> g
      | Some cs \<Rightarrow> g\<lparr>inFlight := (inFlight g)(k := None),
                     received := received g @ map (\<lambda>c. (c, k, r)) cs\<rparr>)"

fun gateEvents :: "('k, 'v) GateEvent list \<Rightarrow> ('k, 'v) RequestGate \<Rightarrow> ('k, 'v) RequestGate" where
  "gateEvents [] g = g"
| "gateEvents (e # es) g = gateEvents es (gateEvent e g)"

text \<open>
  The callers that ask for key \<open>k\<close> in a list of events, and whether the list holds no
  completion of \<open>k\<close> (so that an invocation of \<open>k\<close> stays in flight throughout).
\<close>

fun callersOf :: "'k \<Rightarrow> ('k, 'v) GateEvent list \<Rightarrow> Caller list" where
  "callersOf k [] = []"
| "callersOf k (Run c k' # es) = (if k' = k then c # callersOf k es else callersOf k es)"
| "callersOf k (Completes k' r # es) = callersOf k es"

fun stillRunning :: "'k \<Rightarrow> ('k, 'v) GateEvent list \<Rightarrow> bool" where
  "stillRunning k [] = True"
| "stillRunning k (Run c k' # es) = stillRunning k es"
| "stillRunning k (Completes k' r # es) = (k' \<noteq> k \<and> stillRunning k es)"

definition invocations :: "'k \<Rightarrow> ('k, 'v) RequestGate \<Rightarrow> nat" where
  "invocations k g = length (filter (\<lambda>k'. k' = k) (invoked g))"

definition receivedFor :: "'k \<Rightarrow> ('k, 'v) RequestGate \<Rightarrow> (Caller \<times> 'v Outcome) list" where
  "receivedFor k g = map (\<lambda>(c, k', r). (c, r)) (filter (\<lambda>(c, k', r). k' = k) (received g))"


section \<open>Font size stays in range\<close>

declare decimal.simps [simp del]

lemma preferenceCall_range:
  "14 \<le> fontSize s \<and> fontSize s \<le> 28 \<Longrightarrow>
   14 \<le> fontSize (preferenceCall c s) \<and> fontSize (preferenceCall c s) \<le> 28"
  by (cases c)
     (auto simp: increaseFontSize_def decreaseFontSize_def toggleTheme_def loadPreferences_def
        MIN_FONT_SIZE_def MAX_FONT_SIZE_def FONT_SIZE_STEP_def Let_def
        split: option.splits)

lemma preferenceCalls_range:
  "14 \<le> fontSize s \<and> fontSize s \<le> 28 \<Longrightarrow>
   14 \<le> fontSize (preferenceCalls cs s) \<and> fontSize (preferenceCalls cs s) \<le> 28"
proof (induction cs arbitrary: s)
  case Nil
  then show ?case by simp
next
  case (Cons c cs)
  from Cons.prems have "14 \<le> fontSize (preferenceCall c s) \<and> fontSize (preferenceCall c s) \<le> 28"
    by (rule preferenceCall_range)
  then show ?case using Cons.IH by simp
qed

text \<open>
  C9. From a font size in [14, 28], every sequence of calls on the hook (increase,
  decrease, and also the theme toggle and the load from storage) leaves the font size
  in [14, 28]. \<open>increaseFontSize\<close> adds 2 and caps at 28, \<open>decreaseFontSize\<close> subtracts
  2 and stops at 14; \<open>canIncrease\<close> is exactly "below 28" and \<open>canDecrease\<close> exactly
  "above 14".
\<close>

theorem fontSize_in_range:
  assumes "14 \<le> fontSize s" and "fontSize s \<le> 28"
  shows "14 \<le> fontSize (preferenceCalls cs s) \<and> fontSize (preferenceCalls cs s) \<le> 28
       \<and> fontSize (increaseFontSize s) = (if fontSize s + 2 \<le> 28 then fontSize s + 2 else 28)
       \<and> fontSize (decreaseFontSize s) = (if 14 \<le> fontSize s - 2 then fontSize s - 2 else 14)
       \<and> canIncrease s = (fontSize s < 28)
       \<and> canDecrease s = (14 < fontSize s)"
proof -
  have "14 \<le> fontSize (preferenceCalls cs s) \<and> fontSize (preferenceCalls cs s) \<le> 28"
    using assms preferenceCalls_range by blast
  moreover have "fontSize (increaseFontSize s) = (if fontSize s + 2 \<le> 28 then fontSize s + 2 else 28)"
    by (simp add: increaseFontSize_def MAX_FONT_SIZE_def FONT_SIZE_STEP_def min_def)
  moreover have "fontSize (decreaseFontSize s) = (if 14 \<le> fontSize s - 2 then fontSize s - 2 else 14)"
    by (simp add: decreaseFontSize_def MIN_FONT_SIZE_def FONT_SIZE_STEP_def max_def)
  moreover have "canIncrease s = (fontSize s < 28)"
    by (simp add: canIncrease_def MAX_FONT_SIZE_def)
  moreover have "canDecrease s = (14 < fontSize s)"
    by (simp add: canDecrease_def MIN_FONT_SIZE_def)
  ultimately show ?thesis by blast
qed

theorem fontSize_in_range_witness:
  "fontSize (preferenceCalls
       [IncreaseFontSize, IncreaseFontSize, IncreaseFontSize, IncreaseFontSize,
        IncreaseFontSize, IncreaseFontSize, DecreaseFontSize]
       DEFAULT_PREFERENCES) = 26
   \<and> 14 \<le> fontSize (preferenceCalls
       [IncreaseFontSize, IncreaseFontSize, IncreaseFontSize, IncreaseFontSize,
        IncreaseFontSize, IncreaseFontSize, DecreaseFontSize]
       DEFAULT_PREFERENCES)
   \<and> fontSize (preferenceCalls
       [IncreaseFontSize, IncreaseFontSize, IncreaseFontSize, IncreaseFontSize,
        IncreaseFontSize, IncreaseFontSize, DecreaseFontSize]
       DEFAULT_PREFERENCES) \<le> 28
   \<and> canIncrease DEFAULT_PREFERENCES \<and> canDecrease DEFAULT_PREFERENCES"
proof -
  have lo: "14 \<le> fontSize DEFAULT_PREFERENCES" and hi: "fontSize DEFAULT_PREFERENCES \<le> 28"
    by (simp_all add: DEFAULT_PREFERENCES_def)
  have run: "fontSize (preferenceCalls
       [IncreaseFontSize, IncreaseFontSize, IncreaseFontSize, IncreaseFontSize,
        IncreaseFontSize, IncreaseFontSize, DecreaseFontSize]
       DEFAULT_PREFERENCES) = 26"
    by (simp add: DEFAULT_PREFERENCES_def increaseFontSize_def decreaseFontSize_def
        MIN_FONT_SIZE_def MAX_FONT_SIZE_def FONT_SIZE_STEP_def)
  have "fontSize DEFAULT_PREFERENCES = 18"
    by (simp add: DEFAULT_PREFERENCES_def)
  then show ?thesis
    using run fontSize_in_range [OF lo hi,
        of "[IncreaseFontSize, IncreaseFontSize, IncreaseFontSize, IncreaseFontSize,
             IncreaseFontSize, IncreaseFontSize, DecreaseFontSize]"]
    by simp
qed


section \<open>Page navigation from one render\<close>



section \<open>Deleting a session from the client\<close>

text \<open>
  C6. Deleting always succeeds and is idempotent. \<open>deleteSession\<close> returns without an
  error whenever the server answers ok. \<open>clearSession\<close>, which is how the client
  deletes, returns without an error whatever the server answers (session unknown,
  already deleted, any failure), sends the DELETE request exactly when a session id
  is held, and leaves \<open>sessionId\<close> null, \<open>pages\<close> empty and \<open>error\<close> null. Run again on
  that state it sends nothing and changes nothing. \<open>handleNewSession\<close> of the page
  does not fail either.
\<close>

theorem clearSession_always_succeeds:
  "snd (deleteSession sid (ResponseOk ())) = Inr ()
   \<and> fst (clearSession fetched s) = Inr ()
   \<and> fst (snd (clearSession fetched s)) = s\<lparr>sessionId := None, pages := [], error := None\<rparr>
   \<and> snd (snd (clearSession fetched s)) =
        (if truthy (sessionId s) then [DeleteSessionRequest (the (sessionId s))] else [])
   \<and> clearSession fetched' (fst (snd (clearSession fetched s))) =
        (Inr (), fst (snd (clearSession fetched s)), [])
   \<and> fst (handleNewSession fetched h) = Inr ()"
proof -
  have 1: "snd (deleteSession sid (ResponseOk ())) = Inr ()"
    by (simp add: deleteSession_def responseOrThrow_def)
  have 2: "fst (clearSession fetched s) = Inr ()"
    by (simp add: clearSession_def)
  have 3: "fst (snd (clearSession fetched s)) = s\<lparr>sessionId := None, pages := [], error := None\<rparr>"
    by (simp add: clearSession_def)
  have 4: "snd (snd (clearSession fetched s)) =
        (if truthy (sessionId s) then [DeleteSessionRequest (the (sessionId s))] else [])"
    by (auto simp: clearSession_def deleteSession_def truthy_def
        split: option.splits sum.splits)
  have 5: "clearSession fetched' (s\<lparr>sessionId := None, pages := [], error := None\<rparr>) =
        (Inr (), s\<lparr>sessionId := None, pages := [], error := None\<rparr>, [])"
    by (simp add: clearSession_def)
  have 6: "fst (handleNewSession fetched h) = Inr ()"
    by (simp add: handleNewSession_def clearSession_def)
  from 1 2 3 4 5 6 show ?thesis by simp
qed


section \<open>Audio already loaded\<close>

text \<open>
  C4. When the audio of the current page is already loaded (\<open>loadedPageRef\<close> is the
  page and \<open>audioUrl\<close> is set), \<open>loadAudio\<close> returns at once: the state is unchanged and
  nothing happens outside it, so no TTS request is sent and the loaded URL is neither
  replaced nor revoked. In particular a second \<open>loadAudio\<close> for the same page after a
  first one that succeeded is such a call. A call that is not answered from the
  loaded audio sends exactly one TTS request.
\<close>

theorem loadAudio_already_loaded:
  "(loadedPageRef s = Some page \<and> truthy (audioUrl s) \<longrightarrow>
      loadAudio sid page fetched url s = (s, []))
 \<and> (url \<noteq> [] \<longrightarrow>
      loadAudio sid page fetched' url' (fst (loadAudio sid page (ResponseOk blob) url s0))
        = (fst (loadAudio sid page (ResponseOk blob) url s0), []))
 \<and> (\<not> (loadedPageRef s = Some page \<and> truthy (audioUrl s)) \<longrightarrow>
      ttsRequests (snd (loadAudio sid page fetched url s)) = [GetTTSAudioRequest sid page])"
proof -
  have 1: "loadAudio sid page fetched url s = (s, [])"
    if "loadedPageRef s = Some page \<and> truthy (audioUrl s)"
    using that by (simp add: loadAudio_def)
  have 2: "loadAudio sid page fetched' url' (fst (loadAudio sid page (ResponseOk blob) url s0))
        = (fst (loadAudio sid page (ResponseOk blob) url s0), [])" if "url \<noteq> []"
    using that
    by (simp add: loadAudio_def getTTSAudio_def responseOrThrow_def truthy_def)
  have 3: "ttsRequests (snd (loadAudio sid page fetched url s)) = [GetTTSAudioRequest sid page]"
    if "\<not> (loadedPageRef s = Some page \<and> truthy (audioUrl s))"
    using that
    by (cases "responseOrThrow ''TTS generation failed'' fetched")
       (auto simp: loadAudio_def getTTSAudio_def ttsRequests_def split: option.splits)
  from 1 2 3 show ?thesis by blast
qed

theorem loadAudio_already_loaded_witness:
  "fst (loadAudio ''s1'' 1 (ResponseOk ''RIFF'') ''blob:a1'' initialAudioPlayer)
     = initialAudioPlayer\<lparr>audioUrl := Some ''blob:a1'', loadedPageRef := Some 1\<rparr>
   \<and> loadAudio ''s1'' 1 (ResponseOk ''RIFF'') ''blob:a2''
        (initialAudioPlayer\<lparr>audioUrl := Some ''blob:a1'', loadedPageRef := Some 1\<rparr>)
     = (initialAudioPlayer\<lparr>audioUrl := Some ''blob:a1'', loadedPageRef := Some 1\<rparr>, [])
   \<and> ttsRequests (snd (loadAudio ''s1'' 1 (ResponseOk ''RIFF'') ''blob:a1'' initialAudioPlayer))
     = [GetTTSAudioRequest ''s1'' 1]"
proof -
  have first: "fst (loadAudio ''s1'' 1 (ResponseOk ''RIFF'') ''blob:a1'' initialAudioPlayer)
     = initialAudioPlayer\<lparr>audioUrl := Some ''blob:a1'', loadedPageRef := Some 1\<rparr>"
    by (simp add: loadAudio_def getTTSAudio_def responseOrThrow_def truthy_def
        initialAudioPlayer_def)
  have fresh: "\<not> (loadedPageRef initialAudioPlayer = Some 1 \<and> truthy (audioUrl initialAudioPlayer))"
    by (simp add: initialAudioPlayer_def)
  have url: "''blob:a1'' \<noteq> []" by simp
  show ?thesis
    using first fresh url
      loadAudio_already_loaded [of initialAudioPlayer 1 "''s1''" "ResponseOk ''RIFF''" "''blob:a1''"
        "ResponseOk ''RIFF''" "''blob:a2''" "''RIFF''" initialAudioPlayer]
    by simp
qed


section \<open>Uploads that fail validation\<close>

lemma decimal_15: "decimal 15 = ''15''"
  by code_simp

lemma serverUpload_rejects:
  "length files = 0 \<or> 15 < length files
     \<or> list_ex (\<lambda>f. \<not> allowedMime (file_type f) \<or> maxBytes < file_size f) files \<Longrightarrow>
   serverUpload allowedMime maxBytes ocr files now st = (Inl ValidationError, st)"
  by (simp add: serverUpload_def MAX_UPLOAD_FILES_def)

lemma Home_handleUpload_rejected:
  "Home_handleUpload files (ResponseNotOk detail) fetched h =
     (Inl (Error (if detail \<noteq> [] then detail else ''Upload failed'')),
      h\<lparr>session := (session h)\<lparr>isLoading := False,
            error := Some (if detail \<noteq> [] then detail else ''Upload failed'')\<rparr>\<rparr>,
      [UploadImagesRequest files])"
  by (simp add: Home_handleUpload_def upload_def uploadImages_def responseOrThrow_def
      errorMessage_def)

lemma ImageUploader_handleUpload_rejected:
  "files \<noteq> [] \<Longrightarrow>
   ImageUploader_handleUpload (Home_onUpload (ResponseNotOk detail) fetched) files
       (s, (h, sent)) =
     (s\<lparr>isUploading := False,
        uploader_error := Some (if detail \<noteq> [] then detail else ''Upload failed'')\<rparr>,
      (h\<lparr>session := (session h)\<lparr>isLoading := False,
            error := Some (if detail \<noteq> [] then detail else ''Upload failed'')\<rparr>\<rparr>,
       sent @ [UploadImagesRequest files]))"
  by (simp add: ImageUploader_handleUpload_def Home_onUpload_def Home_handleUpload_rejected
      errorMessage_def)

lemma handleFileSelect_rejects:
  "file_type f \<notin> set allowedTypes \<or> 10 * 1024 * 1024 < file_size f \<or> maxFiles \<le> selectedLength \<Longrightarrow>
   uploader_error (handleFileSelect (Some (f # others)) maxFiles preview selectedLength s) \<noteq> None
   \<and> selectedFiles (handleFileSelect (Some (f # others)) maxFiles preview selectedLength s)
       = selectedFiles s
   \<and> previews (handleFileSelect (Some (f # others)) maxFiles preview selectedLength s)
       = previews s"
  by (auto simp: handleFileSelect_def Let_def)

text \<open>
  C5. An upload with 0 files, with more than 15 files, or holding a file whose MIME
  type is not allowed or whose size is over the limit, is rejected by the server with
  ValidationError, and the store is left exactly as it was: no session is created.
  In the client, when the server answers the upload with a response that is not ok,
  whatever the files and however they were selected, \<open>handleUpload\<close> of the page
  throws the error, sends no further request and leaves the session id and the pages
  as they were, so no session appears there either; from a click on the process
  button, the uploader shows the error and keeps its selection. And a file that
  \<open>handleFileSelect\<close> rejects (type not allowed, over 10 MB, or no room left at the
  time of the render) gets an error message and is not added to the selected files,
  nor its preview to the previews.
\<close>

theorem invalid_upload_is_rejected:
  "(length files = 0 \<or> 15 < length files
      \<or> list_ex (\<lambda>f. \<not> allowedMime (file_type f) \<or> maxBytes < file_size f) files \<longrightarrow>
      serverUpload allowedMime maxBytes ocr files now st = (Inl ValidationError, st))
 \<and> Home_handleUpload files (ResponseNotOk detail) fetched h =
     (Inl (Error (if detail \<noteq> [] then detail else ''Upload failed'')),
      h\<lparr>session := (session h)\<lparr>isLoading := False,
            error := Some (if detail \<noteq> [] then detail else ''Upload failed'')\<rparr>\<rparr>,
      [UploadImagesRequest files])
 \<and> (files \<noteq> [] \<longrightarrow>
      ImageUploader_handleUpload (Home_onUpload (ResponseNotOk detail) fetched) files
          (s, (h, sent)) =
        (s\<lparr>isUploading := False,
           uploader_error := Some (if detail \<noteq> [] then detail else ''Upload failed'')\<rparr>,
         (h\<lparr>session := (session h)\<lparr>isLoading := False,
               error := Some (if detail \<noteq> [] then detail else ''Upload failed'')\<rparr>\<rparr>,
          sent @ [UploadImagesRequest files])))
 \<and> (file_type f \<notin> set allowedTypes \<or> 10 * 1024 * 1024 < file_size f
      \<or> maxFiles \<le> selectedLength \<longrightarrow>
      uploader_error (handleFileSelect (Some (f # others)) maxFiles preview selectedLength s)
          \<noteq> None
      \<and> selectedFiles (handleFileSelect (Some (f # others)) maxFiles preview selectedLength s)
          = selectedFiles s
      \<and> previews (handleFileSelect (Some (f # others)) maxFiles preview selectedLength s)
          = previews s)"
  using serverUpload_rejects [of files allowedMime maxBytes ocr now st]
    Home_handleUpload_rejected [of files detail fetched h]
    ImageUploader_handleUpload_rejected [of files detail fetched s h sent]
    handleFileSelect_rejects [of f maxFiles selectedLength others preview s]
  by blast

theorem invalid_upload_is_rejected_witness:
  "serverUpload (\<lambda>m. m \<in> set allowedTypes) (10 * 1024 * 1024) (\<lambda>f. Some (file_name f))
      (replicate 16 \<lparr>file_name = ''p.jpg'', file_type = ''image/jpeg'', file_size = 1000\<rparr>)
      0 emptyStore = (Inl ValidationError, emptyStore)
   \<and> serverUpload (\<lambda>m. m \<in> set allowedTypes) (10 * 1024 * 1024) (\<lambda>f. Some (file_name f))
      [] 0 emptyStore = (Inl ValidationError, emptyStore)
   \<and> serverUpload (\<lambda>m. m \<in> set allowedTypes) (10 * 1024 * 1024) (\<lambda>f. Some (file_name f))
      [\<lparr>file_name = ''p1.pdf'', file_type = ''application/pdf'', file_size = 1000\<rparr>]
      0 emptyStore = (Inl ValidationError, emptyStore)
   \<and> fst (serverUpload (\<lambda>m. m \<in> set allowedTypes) (10 * 1024 * 1024) (\<lambda>f. Some (file_name f))
      [\<lparr>file_name = ''p.jpg'', file_type = ''image/jpeg'', file_size = 1000\<rparr>]
      0 emptyStore) = Inr 0
   \<and> ImageUploader_handleUpload
        (Home_onUpload (ResponseNotOk ''Maximum 15 images allowed'')
           (ResponseOk \<lparr>pages_session_id = ''s1'', response_pages = []\<rparr>))
        (replicate 16 \<lparr>file_name = ''p.jpg'', file_type = ''image/jpeg'', file_size = 1000\<rparr>)
        (initialImageUploader\<lparr>selectedFiles :=
            replicate 16 \<lparr>file_name = ''p.jpg'', file_type = ''image/jpeg'', file_size = 1000\<rparr>\<rparr>,
         (initialHome, []))
      = (initialImageUploader\<lparr>selectedFiles :=
            replicate 16 \<lparr>file_name = ''p.jpg'', file_type = ''image/jpeg'', file_size = 1000\<rparr>,
            uploader_error := Some ''Maximum 15 images allowed''\<rparr>,
         (initialHome\<lparr>session := initialSession\<lparr>error := Some ''Maximum 15 images allowed''\<rparr>\<rparr>,
          [UploadImagesRequest
             (replicate 16 \<lparr>file_name = ''p.jpg'', file_type = ''image/jpeg'', file_size = 1000\<rparr>)]))
   \<and> uploader_error (handleFileSelect
        (Some [\<lparr>file_name = ''p1.pdf'', file_type = ''application/pdf'', file_size = 1000\<rparr>])
        15 ''blob:1'' 0 initialImageUploader)
      = Some ''p1.pdf is not a valid image type. Use JPG, PNG, WebP, or GIF.''
   \<and> selectedFiles (handleFileSelect
        (Some [\<lparr>file_name = ''p1.pdf'', file_type = ''application/pdf'', file_size = 1000\<rparr>])
        15 ''blob:1'' 0 initialImageUploader) = []
   \<and> uploader_error (handleFileSelect
        (Some [\<lparr>file_name = ''p16.jpg'', file_type = ''image/jpeg'', file_size = 1000\<rparr>])
        15 ''blob:16'' 15 initialImageUploader)
      = Some ''Maximum 15 images allowed.''"
proof -
  let ?allowed = "\<lambda>m. m \<in> set allowedTypes"
  let ?ocr = "\<lambda>f. Some (file_name f)"
  let ?jpg = "\<lparr>file_name = ''p.jpg'', file_type = ''image/jpeg'', file_size = 1000\<rparr>"
  let ?pdf = "\<lparr>file_name = ''p1.pdf'', file_type = ''application/pdf'', file_size = 1000\<rparr>"
  let ?p16 = "\<lparr>file_name = ''p16.jpg'', file_type = ''image/jpeg'', file_size = 1000\<rparr>"
  let ?many = "replicate 16 ?jpg"
  let ?pagesOk = "ResponseOk \<lparr>pages_session_id = ''s1'', response_pages = []\<rparr>"
  have many: "length ?many = 0 \<or> 15 < length ?many
      \<or> list_ex (\<lambda>f. \<not> ?allowed (file_type f) \<or> 10 * 1024 * 1024 < file_size f) ?many"
    by simp
  have none: "length ([] :: File list) = 0 \<or> 15 < length ([] :: File list)
      \<or> list_ex (\<lambda>f. \<not> ?allowed (file_type f) \<or> 10 * 1024 * 1024 < file_size f) []"
    by simp
  have bad: "length [?pdf] = 0 \<or> 15 < length [?pdf]
      \<or> list_ex (\<lambda>f. \<not> ?allowed (file_type f) \<or> 10 * 1024 * 1024 < file_size f) [?pdf]"
    by (simp add: allowedTypes_def)
  have some: "?many \<noteq> []"
    by simp
  have nopdf: "file_type ?pdf \<notin> set allowedTypes \<or> 10 * 1024 * 1024 < file_size ?pdf
      \<or> (15::nat) \<le> 0"
    by (simp add: allowedTypes_def)
  have noroom: "file_type ?p16 \<notin> set allowedTypes \<or> 10 * 1024 * 1024 < file_size ?p16
      \<or> (15::nat) \<le> 15"
    by simp
  have good: "fst (serverUpload ?allowed (10 * 1024 * 1024) ?ocr [?jpg] 0 emptyStore) = Inr 0"
    by (simp add: serverUpload_def MAX_UPLOAD_FILES_def allowedTypes_def create_def emptyStore_def)
  have msg1: "uploader_error (handleFileSelect (Some [?pdf]) 15 ''blob:1'' 0 initialImageUploader)
      = Some ''p1.pdf is not a valid image type. Use JPG, PNG, WebP, or GIF.''"
    by (simp add: handleFileSelect_def allowedTypes_def)
  have msg2: "uploader_error (handleFileSelect (Some [?p16]) 15 ''blob:16'' 15 initialImageUploader)
      = Some ''Maximum 15 images allowed.''"
    by (simp add: handleFileSelect_def allowedTypes_def decimal_15)
  have shown: "initialImageUploader\<lparr>selectedFiles := ?many, isUploading := False,
          uploader_error := Some ''Maximum 15 images allowed''\<rparr>
        = initialImageUploader\<lparr>selectedFiles := ?many,
            uploader_error := Some ''Maximum 15 images allowed''\<rparr>"
      "initialHome\<lparr>session := (session initialHome)\<lparr>isLoading := False,
            error := Some ''Maximum 15 images allowed''\<rparr>\<rparr>
        = initialHome\<lparr>session := initialSession\<lparr>error := Some ''Maximum 15 images allowed''\<rparr>\<rparr>"
    by (simp_all add: initialImageUploader_def initialHome_def initialSession_def)
  have none_selected: "selectedFiles initialImageUploader = []"
    by (simp add: initialImageUploader_def)
  show ?thesis
    using many none bad some nopdf noroom good msg1 msg2 shown none_selected
      invalid_upload_is_rejected [of ?many ?allowed "10 * 1024 * 1024" ?ocr 0 emptyStore
        "''Maximum 15 images allowed''" ?pagesOk initialHome
        "initialImageUploader\<lparr>selectedFiles := ?many\<rparr>" "[]" ?pdf 15 0 "[]" "''blob:1''"]
      invalid_upload_is_rejected [of "[]" ?allowed "10 * 1024 * 1024" ?ocr 0 emptyStore
        "''x''" ?pagesOk initialHome initialImageUploader "[]" ?p16 15 15 "[]" "''blob:16''"]
      invalid_upload_is_rejected [of "[?pdf]" ?allowed "10 * 1024 * 1024" ?ocr 0 emptyStore
        "''x''" ?pagesOk initialHome initialImageUploader "[]" ?pdf 15 0 "[]" "''blob:1''"]
    by simp
qed


section \<open>Upload when the pages cannot be fetched\<close>

text \<open>
  C3. The upload is not all-or-nothing in the client. When \<open>uploadImages\<close> succeeds
  and \<open>getPages\<close> then fails, \<open>upload\<close> throws, but the session id it has already set
  stays, with an empty page list. The page then shows neither the upload section
  (where the hook's error would be displayed) nor the reader section.
\<close>

theorem upload_leaves_session_id_without_pages:
  "Home_handleUpload [\<lparr>file_name = ''p1.jpg'', file_type = ''image/jpeg'', file_size = 1000\<rparr>]
     (ResponseOk \<lparr>session_id = ''s1'', page_count = 1, message = ''ok''\<rparr>)
     (ResponseNotOk ''Session not found'') initialHome
   = (Inl (Error ''Session not found''),
      \<lparr>session = \<lparr>sessionId = Some ''s1'', pages = [], isLoading = False,
                  error = Some ''Session not found''\<rparr>,
       currentPage = 1\<rparr>,
      [UploadImagesRequest [\<lparr>file_name = ''p1.jpg'', file_type = ''image/jpeg'', file_size = 1000\<rparr>],
       GetPagesRequest ''s1''])
   \<and> \<not> uploadSectionShown
        \<lparr>session = \<lparr>sessionId = Some ''s1'', pages = [], isLoading = False,
                    error = Some ''Session not found''\<rparr>,
         currentPage = 1\<rparr>
   \<and> \<not> readerSectionShown
        \<lparr>session = \<lparr>sessionId = Some ''s1'', pages = [], isLoading = False,
                    error = Some ''Session not found''\<rparr>,
         currentPage = 1\<rparr>"
  by (simp add: Home_handleUpload_def upload_def uploadImages_def getPages_def
      responseOrThrow_def errorMessage_def initialHome_def initialSession_def
      uploadSectionShown_def readerSectionShown_def truthy_def)


section \<open>Expiry in the session store\<close>

lemma sessions_fold_delete:
  "sessions (fold delete ids st) i = (if i \<in> set ids then None else sessions st i)"
  by (induction ids arbitrary: st) (auto simp: delete_def)

lemma nextId_fold_delete: "nextId (fold delete ids st) = nextId st"
  by (induction ids arbitrary: st) (auto simp: delete_def)

lemma sessions_reaperTick:
  "sessions (reaperTick now st) i =
     (if i < nextId st \<and> expired now st i then None else sessions st i)"
  by (auto simp: reaperTick_def sessions_fold_delete)

lemma nextId_reaperTick: "nextId (reaperTick now st) = nextId st"
  by (simp add: reaperTick_def nextId_fold_delete)

lemma keeps_storeCall: "keeps i e st \<Longrightarrow> keeps i e (storeCall (t, c) st)"
  by (cases c)
     (auto simp: keeps_def create_def putCache_def get_def delete_def
        sessions_reaperTick nextId_reaperTick split: option.splits if_splits)

lemma keeps_storeCalls: "keeps i e st \<Longrightarrow> keeps i e (storeCalls cs st)"
  by (induction cs arbitrary: st) (auto simp: keeps_storeCall)

lemma keeps_create: "keeps (fst (create ps t0 st)) (t0 + TTL) (snd (create ps t0 st))"
  by (simp add: keeps_def create_def)

lemma get_expired: "keeps i e st \<Longrightarrow> e \<le> now \<Longrightarrow> get i now st = None"
  by (auto simp: keeps_def get_def split: option.splits)

lemma holds_storeCall:
  "holds i t0 e ps st \<Longrightarrow> t < e \<Longrightarrow> c \<noteq> Delete i \<Longrightarrow> holds i t0 e ps (storeCall (t, c) st)"
  by (cases c)
     (auto simp: holds_def create_def putCache_def get_def delete_def expired_def
        sessions_reaperTick nextId_reaperTick split: option.splits if_splits)

lemma holds_storeCalls:
  "holds i t0 e ps st \<Longrightarrow> now < e \<Longrightarrow> quiet i now cs \<Longrightarrow> holds i t0 e ps (storeCalls cs st)"
proof (induction cs arbitrary: st)
  case Nil
  then show ?case by simp
next
  case (Cons c cs)
  obtain t k where c: "c = (t, k)" by (cases c)
  from Cons.prems(3) c have t: "t \<le> now" and k: "k \<noteq> Delete i" and q: "quiet i now cs"
    by (auto simp: quiet_def)
  from Cons.prems(1,2) t k have "holds i t0 e ps (storeCall (t, k) st)"
    by (intro holds_storeCall) auto
  with Cons.IH Cons.prems(2) q c show ?case by simp
qed

lemma holds_create: "holds (fst (create ps t0 st)) t0 (t0 + TTL) ps (snd (create ps t0 st))"
  by (simp add: holds_def create_def)

text \<open>
  C1. Take any store, create a session at time \<open>t0\<close> (so that it expires at
  \<open>t0 + TTL\<close>), and let any calls follow: further creates, cache writes, deletes and
  reaper ticks, at any times, or none at all. Then a \<open>get\<close> (and a \<open>getCache\<close>) at any
  \<open>now\<close> at or after the expiry returns NotFound, whether or not a reaper tick was
  among the calls. And as long as \<open>now\<close> is before the expiry, no call has landed
  after \<open>now\<close> and none has deleted the session explicitly, \<open>get\<close> returns the session
  whole: its creation time, its expiry and its pages are those it was created with.
\<close>

theorem get_after_expiry:
  "(t0 + TTL \<le> now \<longrightarrow>
      get (fst (create ps t0 st)) now (storeCalls cs (snd (create ps t0 st))) = None
    \<and> getCache (fst (create ps t0 st)) k now (storeCalls cs (snd (create ps t0 st))) = NotFound)
 \<and> (now < t0 + TTL \<and> quiet (fst (create ps t0 st)) now cs \<longrightarrow>
      (\<exists>s. get (fst (create ps t0 st)) now (storeCalls cs (snd (create ps t0 st))) = Some s
           \<and> createdAt s = t0 \<and> expiresAt s = t0 + TTL \<and> pageRecords s = ps))"
proof -
  let ?i = "fst (create ps t0 st)" and ?st = "snd (create ps t0 st)"
  have a: "get ?i now (storeCalls cs ?st) = None" if "t0 + TTL \<le> now"
    using keeps_storeCalls [OF keeps_create] that by (rule get_expired)
  have b: "\<exists>s. get ?i now (storeCalls cs ?st) = Some s
           \<and> createdAt s = t0 \<and> expiresAt s = t0 + TTL \<and> pageRecords s = ps"
    if "now < t0 + TTL" "quiet ?i now cs"
  proof -
    have "holds ?i t0 (t0 + TTL) ps (storeCalls cs ?st)"
      using holds_create that by (rule holds_storeCalls)
    with that(1) show ?thesis
      by (auto simp: holds_def get_def split: option.splits)
  qed
  show ?thesis using a b by (simp add: getCache_def)
qed

theorem get_after_expiry_witness:
  "get 0 3600
     (storeCalls
        [(10, PutCache 0 \<lparr>pageNumber = Some 1, stageName = ''translate'', variant = []\<rparr> ''text'')]
        (snd (create [''page one''] 0 emptyStore))) = None
   \<and> (\<exists>s. get 0 3599
          (storeCalls
             [(10, PutCache 0 \<lparr>pageNumber = Some 1, stageName = ''translate'', variant = []\<rparr> ''text''),
              (20, ReaperTick)]
             (snd (create [''page one''] 0 emptyStore))) = Some s
        \<and> pageRecords s = [''page one''])"
proof -
  have i: "fst (create [''page one''] 0 emptyStore) = 0"
    by (simp add: create_def emptyStore_def)
  have late: "0 + TTL \<le> (3600::nat)" by (simp add: TTL_def)
  have early: "(3599::nat) < 0 + TTL" by (simp add: TTL_def)
  have q: "quiet (fst (create [''page one''] 0 emptyStore)) 3599
        [(10, PutCache 0 \<lparr>pageNumber = Some 1, stageName = ''translate'', variant = []\<rparr> ''text''),
         (20, ReaperTick)]"
    by (simp add: quiet_def)
  show ?thesis
    using i late early q
      get_after_expiry [of 0 3600 "[''page one'']" emptyStore
        "[(10, PutCache 0 \<lparr>pageNumber = Some 1, stageName = ''translate'', variant = []\<rparr> ''text'')]"]
      get_after_expiry [of 0 3599 "[''page one'']" emptyStore
        "[(10, PutCache 0 \<lparr>pageNumber = Some 1, stageName = ''translate'', variant = []\<rparr> ''text''),
         (20, ReaperTick)]"]
    by auto
qed


section \<open>One invocation per key in the request gate\<close>

lemma gateEvent_other_key:
  "k' \<noteq> k \<Longrightarrow>
   inFlight (gateEvent (Run c k') g) k = inFlight g k
   \<and> invocations k (gateEvent (Run c k') g) = invocations k g
   \<and> receivedFor k (gateEvent (Run c k') g) = receivedFor k g
   \<and> inFlight (gateEvent (Completes k' r) g) k = inFlight g k
   \<and> invocations k (gateEvent (Completes k' r) g) = invocations k g
   \<and> receivedFor k (gateEvent (Completes k' r) g) = receivedFor k g"
  by (auto simp: invocations_def receivedFor_def split: option.splits)

lemma gate_attached:
  "inFlight g k = Some cs \<Longrightarrow> stillRunning k es \<Longrightarrow>
   inFlight (gateEvents es g) k = Some (cs @ callersOf k es)
   \<and> invocations k (gateEvents es g) = invocations k g
   \<and> receivedFor k (gateEvents es g) = receivedFor k g"
proof (induction es arbitrary: g cs)
  case Nil
  then show ?case by simp
next
  case (Cons e es)
  show ?case
  proof (cases e)
    case (Run c k')
    from Run Cons.prems have s: "stillRunning k es" by simp
    show ?thesis
    proof (cases "k' = k")
      case True
      with Run Cons.prems have f: "inFlight (gateEvent e g) k = Some (cs @ [c])"
        and i: "invocations k (gateEvent e g) = invocations k g"
        and r: "receivedFor k (gateEvent e g) = receivedFor k g"
        by (auto simp: invocations_def receivedFor_def)
      from Cons.IH [OF f s] i r Run True show ?thesis by simp
    next
      case False
      with Run Cons.prems gateEvent_other_key [of k' k c g]
      have f: "inFlight (gateEvent e g) k = Some cs"
        and i: "invocations k (gateEvent e g) = invocations k g"
        and r: "receivedFor k (gateEvent e g) = receivedFor k g"
        by auto
      from Cons.IH [OF f s] i r Run False show ?thesis by simp
    qed
  next
    case (Completes k' r')
    with Cons.prems have ne: "k' \<noteq> k" and s: "stillRunning k es" by auto
    from Completes ne Cons.prems gateEvent_other_key [of k' k _ g r']
    have f: "inFlight (gateEvent e g) k = Some cs"
      and i: "invocations k (gateEvent e g) = invocations k g"
      and r: "receivedFor k (gateEvent e g) = receivedFor k g"
      by auto
    from Cons.IH [OF f s] i r Completes show ?thesis by simp
  qed
qed

lemma gate_started:
  "inFlight g k = None \<Longrightarrow> stillRunning k es \<Longrightarrow> callersOf k es \<noteq> [] \<Longrightarrow>
   inFlight (gateEvents es g) k = Some (callersOf k es)
   \<and> invocations k (gateEvents es g) = invocations k g + 1
   \<and> receivedFor k (gateEvents es g) = receivedFor k g"
proof (induction es arbitrary: g)
  case Nil
  then show ?case by simp
next
  case (Cons e es)
  show ?case
  proof (cases e)
    case (Run c k')
    from Run Cons.prems have s: "stillRunning k es" by simp
    show ?thesis
    proof (cases "k' = k")
      case True
      with Run Cons.prems have f: "inFlight (gateEvent e g) k = Some [c]"
        and i: "invocations k (gateEvent e g) = invocations k g + 1"
        and r: "receivedFor k (gateEvent e g) = receivedFor k g"
        by (auto simp: invocations_def receivedFor_def)
      from gate_attached [OF f s] i r Run True show ?thesis by simp
    next
      case False
      with Run Cons.prems gateEvent_other_key [of k' k c g]
      have f: "inFlight (gateEvent e g) k = None"
        and i: "invocations k (gateEvent e g) = invocations k g"
        and r: "receivedFor k (gateEvent e g) = receivedFor k g"
        and c: "callersOf k es \<noteq> []"
        by auto
      from Cons.IH [OF f s c] i r Run False show ?thesis by simp
    qed
  next
    case (Completes k' r')
    with Cons.prems have ne: "k' \<noteq> k" and s: "stillRunning k es"
      and c: "callersOf k es \<noteq> []"
      by auto
    from Completes ne Cons.prems gateEvent_other_key [of k' k _ g r']
    have f: "inFlight (gateEvent e g) k = None"
      and i: "invocations k (gateEvent e g) = invocations k g"
      and r: "receivedFor k (gateEvent e g) = receivedFor k g"
      by auto
    from Cons.IH [OF f s c] i r Completes show ?thesis by simp
  qed
qed

lemma gateEvents_append: "gateEvents (es @ fs) g = gateEvents fs (gateEvents es g)"
  by (induction es arbitrary: g) auto

text \<open>
  C2. Let no invocation be in flight for the dedup key \<open>k\<close>, and let the events \<open>es\<close>
  arrive before the invocation of \<open>k\<close> completes: among them N >= 1 callers run \<open>k\<close>,
  in any interleaving with the traffic on other keys. When the invocation then
  completes with \<open>r\<close> (a value or an error), the adapter was invoked for \<open>k\<close> exactly
  once more than before, each of the N callers has received that same \<open>r\<close>, and the
  registration of \<open>k\<close> is cleared. A caller that runs \<open>k\<close> after that starts a new
  invocation.
\<close>

theorem gate_invokes_once:
  assumes "inFlight g k = None" and "stillRunning k es" and "callersOf k es \<noteq> []"
  shows "invocations k (gateEvents (es @ [Completes k r]) g) = invocations k g + 1
       \<and> receivedFor k (gateEvents (es @ [Completes k r]) g)
           = receivedFor k g @ map (\<lambda>c. (c, r)) (callersOf k es)
       \<and> inFlight (gateEvents (es @ [Completes k r]) g) k = None
       \<and> invocations k (gateEvents (es @ [Completes k r, Run c k]) g) = invocations k g + 2"
proof -
  let ?g = "gateEvents es g"
  from gate_started [OF assms]
  have f: "inFlight ?g k = Some (callersOf k es)"
    and i: "invocations k ?g = invocations k g + 1"
    and v: "receivedFor k ?g = receivedFor k g" by auto
  have 1: "invocations k (gateEvents (es @ [Completes k r]) g) = invocations k g + 1"
    using f i by (simp add: gateEvents_append invocations_def)
  have 2: "receivedFor k (gateEvents (es @ [Completes k r]) g)
           = receivedFor k g @ map (\<lambda>c. (c, r)) (callersOf k es)"
    using f v by (simp add: gateEvents_append receivedFor_def comp_def)
  have 3: "inFlight (gateEvents (es @ [Completes k r]) g) k = None"
    using f by (simp add: gateEvents_append)
  have "gateEvents (es @ [Completes k r, Run c k]) g
          = gateEvent (Run c k) (gateEvents (es @ [Completes k r]) g)"
    by (simp add: gateEvents_append)
  with 1 3 have 4: "invocations k (gateEvents (es @ [Completes k r, Run c k]) g) = invocations k g + 2"
    by (simp add: invocations_def)
  from 1 2 3 4 show ?thesis by blast
qed

theorem gate_invokes_once_witness:
  "invocations (''s1'', 1::int)
     (gateEvents
        ([Run 1 (''s1'', 1), Run 2 (''s1'', 1), Run 7 (''s1'', 2), Run 3 (''s1'', 1)]
           @ [Completes (''s1'', 1) (Value ''telugu text'')])
        idleGate) = 1
   \<and> receivedFor (''s1'', 1::int)
     (gateEvents
        ([Run 1 (''s1'', 1), Run 2 (''s1'', 1), Run 7 (''s1'', 2), Run 3 (''s1'', 1)]
           @ [Completes (''s1'', 1) (Value ''telugu text'')])
        idleGate)
     = [(1, Value ''telugu text''), (2, Value ''telugu text''), (3, Value ''telugu text'')]"
proof -
  let ?k = "(''s1'', 1::int)"
  let ?es = "[Run 1 ?k, Run 2 ?k, Run 7 (''s1'', 2), Run 3 ?k] :: (string \<times> int, string) GateEvent list"
  let ?g = "idleGate :: (string \<times> int, string) RequestGate"
  have a: "inFlight ?g ?k = None" by (simp add: idleGate_def)
  have b: "stillRunning ?k ?es" by simp
  have c: "callersOf ?k ?es \<noteq> []" by simp
  have d: "invocations ?k ?g = 0" "receivedFor ?k ?g = []"
    by (simp_all add: invocations_def receivedFor_def idleGate_def)
  show ?thesis
    using d gate_invokes_once [OF a b c, of "Value ''telugu text''"]
    by simp
qed

end
